theory Spec2Isabelle
  imports
    Complex_Main
    "HOL-Library.Char_ord"
    "HOL-Library.List_Lexorder"
    "HOL-Library.Product_Lexorder"
    "HOL-Library.Multiset"
begin

section \<open>Reddit stock momentum monitor: the dashboard code and the analytics contracts\<close>

text \<open>
  The repository's sources are the React/TypeScript dashboard
  (\<^verbatim>\<open>frontend/src\<close>): the API client, the formatting helpers, the time-range
  selector, the trending card and the dashboard page. JavaScript numbers are embedded
  as \<^typ>\<open>real\<close> (the values read from a JSON response are finite, and the
  comparisons of the code are exact on them), strings as \<^typ>\<open>string\<close>,
  an optional argument as an \<^typ>\<open>'a option\<close>, and a thrown error as the
  left summand of a sum type.
\<close>

subsection \<open>Decimal rendering of a non-negative integer\<close>

text \<open>
  A template literal \<^verbatim>\<open>`${n}`\<close> renders a non-negative integer in decimal,
  without leading zeros.
\<close>

definition digit :: "nat \<Rightarrow> char" where
  "digit n = ''0123456789'' ! n"

fun show_nat :: "nat \<Rightarrow> string" where
  "show_nat n = (if n < 10 then [digit n] else show_nat (n div 10) @ [digit (n mod 10)])"

declare show_nat.simps [simp del]

subsection \<open>types/index.ts and components/TimeRangeSelector.tsx\<close>

text \<open>
  \<^verbatim>\<open>export type TimeRange = '1d' | '3d' | '7d' | '30d';\<close>
\<close>

datatype TimeRange = R1d | R3d | R7d | R30d

text \<open>
  The entries of the \<^verbatim>\<open>timeRanges\<close> table,
  \<^verbatim>\<open>{ value: TimeRange; label: string; days: number }\<close>.
\<close>

record range_entry =
  rvalue :: TimeRange
  rlabel :: string
  rdays :: nat

definition timeRanges :: "range_entry list" where
  "timeRanges =
    [ \<lparr>rvalue = R1d, rlabel = ''1 Day'', rdays = 1\<rparr>,
      \<lparr>rvalue = R3d, rlabel = ''3 Days'', rdays = 3\<rparr>,
      \<lparr>rvalue = R7d, rlabel = ''7 Days'', rdays = 7\<rparr>,
      \<lparr>rvalue = R30d, rlabel = ''30 Days'', rdays = 30\<rparr> ]"

text \<open>
  \<^verbatim>\<open>const rangeMap = { '1d': 1, '3d': 3, '7d': 7, '30d': 30 }; return rangeMap[range];\<close>
  The object literal has one property for each value of the union type, so the lookup
  is a case distinction on the argument.
\<close>

fun timeRangeToDays :: "TimeRange \<Rightarrow> nat" where
  "timeRangeToDays R1d = 1"
| "timeRangeToDays R3d = 3"
| "timeRangeToDays R7d = 7"
| "timeRangeToDays R30d = 30"

text \<open>
  The entry of \<^verbatim>\<open>timeRanges\<close> a button of the selector is rendered from: the
  first one whose \<^verbatim>\<open>value\<close> is the given range.
\<close>

definition entry_of :: "TimeRange \<Rightarrow> range_entry option" where
  "entry_of r = find (\<lambda>e. rvalue e = r) timeRanges"

text \<open>The label a number of days reads as: \<^verbatim>\<open>1 Day\<close>, \<^verbatim>\<open>3 Days\<close>, ...\<close>

definition days_label :: "nat \<Rightarrow> string" where
  "days_label d = show_nat d @ (if d = 1 then '' Day'' else '' Days'')"

subsection \<open>The records of types/index.ts that the formatting code reads\<close>

text \<open>
  \<^verbatim>\<open>TrendingStock\<close>, \<^verbatim>\<open>SentimentSummary\<close> and \<^verbatim>\<open>MomentumSpike\<close>. The sentiment
  a stock or a summary holds is a number, and these records have no field for a label:
  the components below compute the label when they render. (The response type of
  \<^verbatim>\<open>getSentimentSummary\<close> in api.ts declares a \<^verbatim>\<open>sentiment_label\<close> made by the
  server next to its \<^verbatim>\<open>avg_sentiment\<close>; no component calls that method or reads
  that field.) \<^verbatim>\<open>summary_total_mentions\<close> is the \<^verbatim>\<open>total_mentions\<close> of a
  \<^verbatim>\<open>SentimentSummary\<close>.
\<close>

record TrendingStock =
  symbol :: string
  company_name :: string
  total_mentions :: nat
  total_posts :: nat
  avg_sentiment :: real
  momentum_score :: real
  volume_spike :: real
  latest_date :: string


record MomentumSpike =
  spike_symbol :: string
  spike_company_name :: string
  spike_momentum_score :: real
  spike_volume_spike :: real
  spike_mention_count :: nat
  spike_avg_sentiment :: real
  spike_date :: string

subsection \<open>utils/api.ts: formatting helpers\<close>

text \<open>
  \<^verbatim>\<open>if (sentiment > 0.1) return 'Positive';
  if (sentiment < -0.1) return 'Negative';
  return 'Neutral';\<close>
  The bound \<open>0.1\<close> stands for the number the literal \<^verbatim>\<open>0.1\<close> denotes in the code.
\<close>

definition formatSentiment :: "real \<Rightarrow> string" where
  "formatSentiment sentiment =
    (if sentiment > 0.1 then ''Positive''
     else if sentiment < - 0.1 then ''Negative''
     else ''Neutral'')"

definition getSentimentColor :: "real \<Rightarrow> string" where
  "getSentimentColor sentiment =
    (if sentiment > 0.1 then ''text-success-600''
     else if sentiment < - 0.1 then ''text-danger-600''
     else ''text-gray-600'')"

definition getMomentumColor :: "real \<Rightarrow> string" where
  "getMomentumColor momentum =
    (if momentum > 20 then ''text-success-600''
     else if momentum < - 20 then ''text-danger-600''
     else ''text-gray-600'')"

subsection \<open>components/SentimentChart.tsx and components/TrendingStockCard.tsx\<close>



text \<open>
  TrendingStockCard, the warning box at the foot of the card:
  \<^verbatim>\<open>{stock.volume_spike > 20 && ( ... Volume spike: +{formatPercent(stock.volume_spike)} ... )}\<close>.
  The result is the percentage the box shows, or \<open>None\<close> when no box is rendered.
\<close>

definition volume_spike_box :: "TrendingStock \<Rightarrow> real option" where
  "volume_spike_box stock =
    (if volume_spike stock > 20 then Some (volume_spike stock) else None)"

subsection \<open>utils/api.ts and the Dashboard page: momentum spikes\<close>

text \<open>
  The requests of the API client that matter here, by endpoint and query parameters:
  \<^verbatim>\<open>/momentum-spikes?threshold=${threshold}\<close> and
  \<^verbatim>\<open>/trending?days=${days}&limit=${limit}&min_mentions=${minMentions}\<close>.
\<close>

datatype api_request =
  MomentumSpikesRequest real
| TrendingRequest nat nat nat

text \<open>
  \<^verbatim>\<open>async getMomentumSpikes(threshold = 50.0)\<close>: an omitted argument takes the
  default.
\<close>

definition getMomentumSpikes :: "real option \<Rightarrow> api_request" where
  "getMomentumSpikes threshold =
    MomentumSpikesRequest (case threshold of None \<Rightarrow> 50.0 | Some t \<Rightarrow> t)"

text \<open>
  \<^verbatim>\<open>async getTrendingStocks(days = 1, limit = 20, minMentions = 5)\<close>.
\<close>

definition getTrendingStocks :: "nat option \<Rightarrow> nat option \<Rightarrow> nat option \<Rightarrow> api_request" where
  "getTrendingStocks days limit minMentions =
    TrendingRequest (case days of None \<Rightarrow> 1 | Some d \<Rightarrow> d)
      (case limit of None \<Rightarrow> 20 | Some l \<Rightarrow> l)
      (case minMentions of None \<Rightarrow> 5 | Some m \<Rightarrow> m)"

text \<open>
  Dashboard: \<^verbatim>\<open>usePolling(() => apiClient.getMomentumSpikes(50), 60000)\<close> and
  \<^verbatim>\<open>apiClient.getTrendingStocks(timeRangeToDays(timeRange), 20, minMentions)\<close>.
\<close>

definition Dashboard_spikes_request :: api_request where
  "Dashboard_spikes_request = getMomentumSpikes (Some 50)"

definition Dashboard_trending_request :: "TimeRange \<Rightarrow> nat \<Rightarrow> api_request" where
  "Dashboard_trending_request timeRange minMentions =
    getTrendingStocks (Some (timeRangeToDays timeRange)) (Some 20) (Some minMentions)"

text \<open>
  Dashboard. While both the statistics and the trending list are loading the page is
  only a spinner:
  \<^verbatim>\<open>if (statsLoading && trendingLoading) { return ( ... <LoadingSpinner size="lg" /> ... ); }\<close>
  Otherwise the "Momentum Spikes Detected" alert is rendered under the guard
  \<^verbatim>\<open>{spikesData && spikesData.momentum_spikes.length > 0 && ( ... )}\<close>. It shows the
  number of spikes of the response and, for the first three of them
  (\<^verbatim>\<open>slice(0, 3)\<close>), the symbol and the momentum score. \<open>spikesData = None\<close> is
  the response not being there (still loading, or failed); the result \<open>None\<close> is no
  alert on the page.
\<close>

definition spikes_alert ::
  "bool \<Rightarrow> bool \<Rightarrow> MomentumSpike list option \<Rightarrow> (nat \<times> (string \<times> real) list) option" where
  "spikes_alert statsLoading trendingLoading spikesData =
    (if statsLoading \<and> trendingLoading then None
     else
       (case spikesData of
          None \<Rightarrow> None
        | Some momentum_spikes \<Rightarrow>
            if length momentum_spikes > 0
            then Some (length momentum_spikes,
                       map (\<lambda>spike. (spike_symbol spike, spike_momentum_score spike))
                         (take 3 momentum_spikes))
            else None))"



text \<open>A trending stock whose volume spike is 30 percent.\<close>

definition mild_spike :: TrendingStock where
  "mild_spike =
    \<lparr>symbol = ''GME'', company_name = ''GameStop Corp.'', total_mentions = 6, total_posts = 4,
     avg_sentiment = 0.05, momentum_score = 10, volume_spike = 30,
     latest_date = ''2024-01-08''\<rparr>"

subsection \<open>utils/api.ts: ApiClient.request\<close>

text \<open>
  The value \<^verbatim>\<open>response.json()\<close> resolves to: what \<^verbatim>\<open>JSON.parse\<close> builds from the
  body. An object keeps its properties in the order of the text; a repeated key is
  listed twice, and reading it gives the last one, as \<^verbatim>\<open>JSON.parse\<close> does.
\<close>

datatype json =
  JNull
| JBool bool
| JNum real
| JStr string
| JArr "json list"
| JObj "(string \<times> json) list"

text \<open>
  What \<^verbatim>\<open>request\<close> throws (the rejection of the promise it returns): the
  \<^verbatim>\<open>Error\<close> it constructs, with its message; the \<^verbatim>\<open>SyntaxError\<close> of
  \<^verbatim>\<open>response.json()\<close> on a body that is not JSON; the \<^verbatim>\<open>TypeError\<close> of reading a
  property of \<^verbatim>\<open>null\<close> or of converting an object that has no primitive value.
\<close>

datatype js_error = Error string | SyntaxError | TypeError

text \<open>
  The fields of the fetch \<^verbatim>\<open>Response\<close> that \<^verbatim>\<open>request\<close> reads.
  \<^verbatim>\<open>json_body\<close> is the outcome of \<^verbatim>\<open>response.json()\<close>: the parsed value, or
  \<open>None\<close> when the promise rejects because the body is not JSON.
\<close>

record response =
  ok :: bool
  status :: nat
  statusText :: string
  json_body :: "json option"

text \<open>JavaScript's truthiness of a parsed JSON value, as \<^verbatim>\<open>||\<close> tests it.\<close>

fun truthy :: "json \<Rightarrow> bool" where
  "truthy JNull = False"
| "truthy (JBool b) = b"
| "truthy (JNum n) = (n \<noteq> 0)"
| "truthy (JStr s) = (s \<noteq> [])"
| "truthy (JArr xs) = True"
| "truthy (JObj kvs) = True"

text \<open>
  \<^verbatim>\<open>errorData.detail\<close>: a \<^verbatim>\<open>TypeError\<close> on \<^verbatim>\<open>null\<close>; the property of an
  object, \<^verbatim>\<open>undefined\<close> (here \<open>None\<close>) when it has none of that name; \<^verbatim>\<open>undefined\<close>
  on an array, a string, a number or a boolean, none of which has a property
  \<^verbatim>\<open>detail\<close>.
\<close>

fun get_detail :: "json \<Rightarrow> js_error + json option" where
  "get_detail JNull = Inl TypeError"
| "get_detail (JObj kvs) = Inr (map_of (rev kvs) ''detail'')"
| "get_detail v = Inr None"

text \<open>
  \<^verbatim>\<open>Array.prototype.join\<close> with the separator \<^verbatim>\<open>,\<close> over the converted elements;
  \<open>None\<close> is a conversion that throws.
\<close>

fun join_strings :: "string option list \<Rightarrow> string option" where
  "join_strings [] = Some []"
| "join_strings [x] = x"
| "join_strings (x # y # ys) =
     (case x of
        None \<Rightarrow> None
      | Some s \<Rightarrow>
          (case join_strings (y # ys) of None \<Rightarrow> None | Some r \<Rightarrow> Some (s @ '','' @ r)))"

text \<open>
  The conversion \<^verbatim>\<open>new Error(message)\<close> applies to its argument (ToString). A string
  is itself; an array is its elements joined by commas, \<^verbatim>\<open>null\<close> elements as empty
  strings; an object is \<^verbatim>\<open>[object Object]\<close>, unless it has a property
  \<^verbatim>\<open>toString\<close> of its own, which in a parsed JSON value is never a function and
  makes the conversion throw a \<^verbatim>\<open>TypeError\<close> (\<open>None\<close>). The rendering of a number
  is the parameter \<open>ns\<close>.
\<close>

fun ToString :: "(real \<Rightarrow> string) \<Rightarrow> json \<Rightarrow> string option" where
  "ToString ns JNull = Some ''null''"
| "ToString ns (JBool b) = Some (if b then ''true'' else ''false'')"
| "ToString ns (JNum n) = Some (ns n)"
| "ToString ns (JStr s) = Some s"
| "ToString ns (JArr xs) =
     join_strings (map (\<lambda>x. if x = JNull then Some [] else ToString ns x) xs)"
| "ToString ns (JObj kvs) =
     (if ''toString'' \<in> fst ` set kvs then None else Some ''[object Object]'')"

text \<open>
  \<^verbatim>\<open>`HTTP ${response.status}: ${response.statusText}`\<close>
\<close>

definition http_message :: "response \<Rightarrow> string" where
  "http_message response =
     ''HTTP '' @ show_nat (status response) @ '': '' @ statusText response"

text \<open>
  \<^verbatim>\<open>if (!response.ok) {
    const errorData = await response.json().catch(() => ({}));
    throw new Error(errorData.detail || `HTTP ${response.status}: ${response.statusText}`);
  }
  return response.json();\<close>
  The function is applied to the response that \<^verbatim>\<open>fetch\<close> resolved to.
\<close>

definition request :: "(real \<Rightarrow> string) \<Rightarrow> response \<Rightarrow> js_error + json" where
  "request ns response =
    (if \<not> ok response then
       (let errorData = (case json_body response of None \<Rightarrow> JObj [] | Some v \<Rightarrow> v) in
        case get_detail errorData of
          Inl e \<Rightarrow> Inl e
        | Inr None \<Rightarrow> Inl (Error (http_message response))
        | Inr (Some detail) \<Rightarrow>
            if truthy detail
            then (case ToString ns detail of
                    None \<Rightarrow> Inl TypeError
                  | Some message \<Rightarrow> Inl (Error message))
            else Inl (Error (http_message response)))
     else (case json_body response of None \<Rightarrow> Inl SyntaxError | Some v \<Rightarrow> Inr v))"

text \<open>Responses the client can receive.\<close>

definition page_200 :: response where
  "page_200 = \<lparr>ok = True, status = 200, statusText = ''OK'', json_body = None\<rparr>"

definition stats_200 :: response where
  "stats_200 =
    \<lparr>ok = True, status = 200, statusText = ''OK'',
     json_body = Some (JObj [(''total_posts'', JNum 12)])\<rparr>"

definition not_found_404 :: response where
  "not_found_404 =
    \<lparr>ok = False, status = 404, statusText = ''Not Found'',
     json_body = Some (JObj [(''detail'', JStr ''Stock not found'')])\<rparr>"

definition gateway_502 :: response where
  "gateway_502 = \<lparr>ok = False, status = 502, statusText = ''Bad Gateway'', json_body = None\<rparr>"

definition empty_detail_500 :: response where
  "empty_detail_500 =
    \<lparr>ok = False, status = 500, statusText = ''Internal Server Error'',
     json_body = Some (JObj [(''detail'', JStr [])])\<rparr>"

definition validation_422 :: response where
  "validation_422 =
    \<lparr>ok = False, status = 422, statusText = ''Unprocessable Entity'',
     json_body = Some (JObj [(''detail'',
       JArr [JObj [(''loc'', JArr [JStr ''query'', JStr ''days'']),
                   (''msg'', JStr ''value is not a valid integer'')]])])\<rparr>"

definition busy_503 :: response where
  "busy_503 =
    \<lparr>ok = False, status = 503, statusText = ''Service Unavailable'',
     json_body = Some (JObj [(''error'', JStr ''busy'')])\<rparr>"

definition null_500 :: response where
  "null_500 =
    \<lparr>ok = False, status = 500, statusText = ''Internal Server Error'',
     json_body = Some JNull\<rparr>"

section \<open>The analytics contracts of the backend\<close>

text \<open>
  The trend analyser that computes and ranks the daily statistics runs in the Python
  backend, which is not among the sources above; the dashboard only reads its numbers.
  The definitions of this section follow the specification's description of it.
\<close>

subsection \<open>Momentum score\<close>

text \<open>
  Modelled from the spec: the values a score can take, "finite, not infinite/NaN" (the
  backend's arithmetic is missing from the sources). A division gives a finite number,
  an infinity when a non-zero number is divided by zero, and not-a-number when zero is
  divided by zero; rounding and overflow of the finite values are not modelled.
\<close>

datatype quotient = Finite real | Infinite | NaN

definition fdiv :: "real \<Rightarrow> real \<Rightarrow> quotient" where
  "fdiv x y = (if y = 0 then (if x = 0 then NaN else Infinite) else Finite (x / y))"

definition scaled :: "quotient \<Rightarrow> real \<Rightarrow> quotient" where
  "scaled q k =
    (case q of
       Finite v \<Rightarrow> Finite (v * k)
     | Infinite \<Rightarrow> (if k = 0 then NaN else Infinite)
     | NaN \<Rightarrow> NaN)"

text \<open>
  Modelled from the spec: the momentum score of the Trend/Momentum Engine (the
  backend's trend analyser is missing from the sources),
  \<^verbatim>\<open>momentum = ((current_count - baseline) / max(baseline, 1)) * 100\<close>, where
  \<^verbatim>\<open>current_count\<close> is the day's mention count and \<^verbatim>\<open>baseline\<close> the moving
  average of the preceding days.
\<close>

definition momentum :: "nat \<Rightarrow> real \<Rightarrow> quotient" where
  "momentum current_count baseline =
    scaled (fdiv (real current_count - baseline) (max baseline 1)) 100"

text \<open>
  For comparison, the percentage change against the bare baseline, without the floor
  of 1 in the denominator.
\<close>

definition unfloored_change :: "nat \<Rightarrow> real \<Rightarrow> quotient" where
  "unfloored_change current_count baseline =
    scaled (fdiv (real current_count - baseline) baseline) 100"

subsection \<open>Trending order\<close>

text \<open>
  Modelled from the spec: the DailyTrend row of the data model (the backend's tables
  are missing from the sources): symbol ticker, date at day granularity, mention count,
  unique post count, average sentiment, momentum score and volume spike percentage.
\<close>

record daily_trend =
  ticker :: string
  date :: nat
  mention_count :: nat
  unique_post_count :: nat
  daily_avg_sentiment :: real
  daily_momentum_score :: real
  volume_spike_pct :: real

text \<open>
  Modelled from the spec: the ranking of the trending output (the backend's trend
  analyser is missing from the sources): sort by \<^verbatim>\<open>momentum_score\<close> descending,
  tie-break by \<^verbatim>\<open>mention_count\<close> descending, then alphabetically by ticker. The sort
  key is the triple of the negated momentum, the negated count and the ticker, compared
  lexicographically; tickers compare as strings, character by character.
\<close>

definition rank_key :: "daily_trend \<Rightarrow> real \<times> int \<times> string" where
  "rank_key row = (- daily_momentum_score row, - int (mention_count row), ticker row)"

definition trending :: "daily_trend list \<Rightarrow> daily_trend list" where
  "trending rows = sort_key rank_key rows"

text \<open>
  The order in the specification's words: \<open>a\<close> is listed before \<open>b\<close> when its
  momentum is higher, or the momenta are equal and its mention count is higher, or both
  are equal and its ticker comes first in the alphabet.
\<close>

definition ranks_before :: "daily_trend \<Rightarrow> daily_trend \<Rightarrow> bool" where
  "ranks_before a b =
    (daily_momentum_score a > daily_momentum_score b \<or>
     (daily_momentum_score a = daily_momentum_score b \<and>
      (mention_count a > mention_count b \<or>
       (mention_count a = mention_count b \<and> ticker a < ticker b))))"

text \<open>A day's row of a symbol, for the examples.\<close>

definition trend_row :: "string \<Rightarrow> nat \<Rightarrow> real \<Rightarrow> daily_trend" where
  "trend_row t n m =
    \<lparr>ticker = t, date = 8, mention_count = n, unique_post_count = n,
     daily_avg_sentiment = 0, daily_momentum_score = m, volume_spike_pct = 0\<rparr>"

section \<open>Theorems\<close>

subsection \<open>Time ranges\<close>

lemma timeRanges_values: "map rvalue timeRanges = [R1d, R3d, R7d, R30d]"
  by (simp add: timeRanges_def)

lemma show_nat_small: "n < 10 \<Longrightarrow> show_nat n = [digit n]"
  by (simp add: show_nat.simps)

lemma timeRanges_labels: "map rlabel timeRanges = map (\<lambda>e. days_label (rdays e)) timeRanges"
  by (simp add: timeRanges_def days_label_def show_nat.simps [of 30] show_nat_small digit_def)

text \<open>
  C9. For each of the four TimeRange values \<^verbatim>\<open>'1d'\<close>, \<^verbatim>\<open>'3d'\<close>, \<^verbatim>\<open>'7d'\<close> and
  \<^verbatim>\<open>'30d'\<close>, \<^verbatim>\<open>timeRangeToDays\<close> returns 1, 3, 7 and 30 respectively, and this is
  the \<^verbatim>\<open>days\<close> field of the one entry of \<^verbatim>\<open>timeRanges\<close> whose \<^verbatim>\<open>value\<close> is
  that range; the entry's label spells the same number of days. So what the selector
  shows and what is sent as the \<^verbatim>\<open>days\<close> query parameter agree.
\<close>

theorem timeRangeToDays_agrees_with_timeRanges:
  "timeRangeToDays R1d = 1 \<and> timeRangeToDays R3d = 3 \<and>
   timeRangeToDays R7d = 7 \<and> timeRangeToDays R30d = 30 \<and>
   map_option rdays (entry_of r) = Some (timeRangeToDays r) \<and>
   length (filter (\<lambda>e. rvalue e = r) timeRanges) = 1 \<and>
   map_option rlabel (entry_of r) = Some (days_label (timeRangeToDays r))"
  by (cases r) (simp_all add: entry_of_def timeRanges_def days_label_def
      show_nat.simps [of 30] show_nat_small digit_def)

theorem timeRangeToDays_agrees_with_timeRanges_witness:
  "map_option rdays (entry_of R30d) = Some 30 \<and>
   map_option rlabel (entry_of R30d) = Some ''30 Days''"
  using timeRangeToDays_agrees_with_timeRanges [of R30d]
  by (simp add: days_label_def show_nat.simps [of 30] show_nat_small digit_def)

subsection \<open>Sentiment classification\<close>

lemma formatSentiment_cases:
  "formatSentiment x = ''Positive'' \<or> formatSentiment x = ''Negative'' \<or>
   formatSentiment x = ''Neutral''"
  by (simp add: formatSentiment_def)



subsection \<open>Volume spikes on the dashboard\<close>

text \<open>
  What the dashboard does about spikes. The API client asks for momentum spikes with
  a threshold that defaults to 50 percent, and the Dashboard passes 50; which symbols
  the answer holds is decided by the server. The Dashboard sends its minimum-mentions
  setting with the trending request.
\<close>

lemma getMomentumSpikes_default:
  "getMomentumSpikes None = MomentumSpikesRequest 50"
  "getMomentumSpikes (Some t) = MomentumSpikesRequest t"
  "Dashboard_spikes_request = MomentumSpikesRequest 50"
  "Dashboard_trending_request timeRange minMentions =
     TrendingRequest (timeRangeToDays timeRange) 20 minMentions"
  by (simp_all add: getMomentumSpikes_def Dashboard_spikes_request_def
      Dashboard_trending_request_def getTrendingStocks_def)

text \<open>
  Once the page is past its spinner, the alert is there exactly when the response has
  spikes; it counts all of them and names the first three.
\<close>

lemma spikes_alert_shown:
  "(spikes_alert statsLoading trendingLoading spikesData \<noteq> None) =
     (\<not> (statsLoading \<and> trendingLoading) \<and> (\<exists>spikes. spikesData = Some spikes \<and> spikes \<noteq> []))"
  by (auto simp add: spikes_alert_def split: option.splits)

lemma spikes_alert_content:
  "\<not> (statsLoading \<and> trendingLoading) \<Longrightarrow>
   spikes_alert statsLoading trendingLoading (Some (spike # spikes)) =
     Some (Suc (length spikes),
           map (\<lambda>s. (spike_symbol s, spike_momentum_score s)) (take 3 (spike # spikes)))"
  by (simp add: spikes_alert_def)

text \<open>
  A trending card shows its volume-spike warning exactly when the stock's volume spike
  exceeds 20 percent: a spike of 30 percent, which does not exceed 50 percent, is shown.
\<close>

lemma volume_spike_box_shown:
  "(volume_spike_box stock \<noteq> None) = (20 < volume_spike stock)"
  "(volume_spike_box stock = Some v) = (20 < volume_spike stock \<and> v = volume_spike stock)"
  by (auto simp add: volume_spike_box_def)

lemma volume_spike_box_mild_spike:
  "volume_spike_box mild_spike = Some 30 \<and> \<not> 50 < volume_spike mild_spike"
  by (simp add: volume_spike_box_def mild_spike_def)

subsection \<open>ApiClient.request\<close>

lemma request_ok:
  "ok r \<Longrightarrow> request ns r = (case json_body r of None \<Rightarrow> Inl SyntaxError | Some v \<Rightarrow> Inr v)"
  by (simp add: request_def)

lemma request_not_ok_throws: "\<not> ok r \<Longrightarrow> isl (request ns r)"
  by (simp add: request_def Let_def split: sum.splits option.splits)

lemma request_truthy_detail:
  "\<not> ok r \<Longrightarrow> json_body r = Some (JObj kvs) \<Longrightarrow> map_of (rev kvs) ''detail'' = Some d \<Longrightarrow>
   truthy d \<Longrightarrow>
   request ns r = Inl (case ToString ns d of None \<Rightarrow> TypeError | Some m \<Rightarrow> Error m)"
  by (simp add: request_def split: option.splits)

lemma request_no_truthy_detail:
  assumes "\<not> ok r"
    and "json_body r \<noteq> Some JNull"
    and "\<And>kvs d. json_body r = Some (JObj kvs) \<Longrightarrow> map_of (rev kvs) ''detail'' = Some d \<Longrightarrow>
           \<not> truthy d"
  shows "request ns r = Inl (Error (http_message r))"
proof (cases "json_body r")
  case None
  with assms(1) show ?thesis by (simp add: request_def)
next
  case (Some v)
  with assms show ?thesis
    by (cases v) (auto simp add: request_def split: option.splits)
qed

text \<open>
  Three responses with \<^verbatim>\<open>ok\<close> false that the statement of the contract below leaves
  aside: a \<^verbatim>\<open>detail\<close> that is the empty string, a \<^verbatim>\<open>detail\<close> that is a list of
  validation errors, and a body that is the JSON \<^verbatim>\<open>null\<close>. In the first two the
  message of the error is not the \<^verbatim>\<open>detail\<close>; in the last the error is not the one
  \<^verbatim>\<open>request\<close> constructs.
\<close>

lemma request_empty_detail:
  "request ns empty_detail_500 = Inl (Error ''HTTP 500: Internal Server Error'')"
  by (simp add: request_def empty_detail_500_def http_message_def show_nat.simps digit_def)

lemma request_validation_detail: "request ns validation_422 = Inl (Error ''[object Object]'')"
  by (simp add: request_def validation_422_def)

lemma request_null_body: "request ns null_500 = Inl TypeError"
  by (simp add: request_def null_500_def)

text \<open>
  C10, as stated, fails: a response with \<^verbatim>\<open>ok\<close> true whose body is not JSON (a page
  served with status 200, or an empty body) makes \<^verbatim>\<open>request\<close> throw, the rejection
  of \<^verbatim>\<open>response.json()\<close>, although \<^verbatim>\<open>response.ok\<close> is true.
\<close>

theorem request_throws_on_ok_response:
  "ok page_200 \<and> (\<forall>ns. request ns page_200 = Inl SyntaxError)"
  by (simp add: request_def page_200_def)

text \<open>
  C10, amended. When \<^verbatim>\<open>response.ok\<close> is true, \<^verbatim>\<open>request\<close> returns the parsed JSON
  body if the body is JSON, and otherwise throws the parse error of
  \<^verbatim>\<open>response.json()\<close>. When \<^verbatim>\<open>response.ok\<close> is false it always throws, and what
  it throws is an \<^verbatim>\<open>Error\<close> whose message is the \<^verbatim>\<open>detail\<close> field when the body
  is a JSON object whose \<^verbatim>\<open>detail\<close> is a non-empty string, and an \<^verbatim>\<open>Error\<close> with
  message \<^verbatim>\<open>HTTP {status}: {statusText}\<close> when the body is not JSON or is a JSON
  value other than \<^verbatim>\<open>null\<close> that has no \<^verbatim>\<open>detail\<close> field. What is thrown for any
  other \<^verbatim>\<open>detail\<close>, or for a body that is the JSON \<^verbatim>\<open>null\<close>, is not stated.
\<close>

theorem request_result:
  "(ok r \<longrightarrow>
      request ns r = (case json_body r of None \<Rightarrow> Inl SyntaxError | Some v \<Rightarrow> Inr v)) \<and>
   (\<not> ok r \<longrightarrow> isl (request ns r)) \<and>
   (\<not> ok r \<and> json_body r = Some (JObj kvs) \<and> map_of (rev kvs) ''detail'' = Some (JStr s) \<and>
      s \<noteq> [] \<longrightarrow> request ns r = Inl (Error s)) \<and>
   (\<not> ok r \<and>
      (json_body r = None \<or>
       (\<exists>v. json_body r = Some v \<and> v \<noteq> JNull \<and>
            (\<forall>kvs'. v = JObj kvs' \<longrightarrow> map_of (rev kvs') ''detail'' = None))) \<longrightarrow>
      request ns r = Inl (Error (http_message r)))"
proof (intro conjI impI)
  assume "ok r"
  then show "request ns r = (case json_body r of None \<Rightarrow> Inl SyntaxError | Some v \<Rightarrow> Inr v)"
    by (rule request_ok)
next
  assume "\<not> ok r"
  then show "isl (request ns r)" by (rule request_not_ok_throws)
next
  assume "\<not> ok r \<and> json_body r = Some (JObj kvs) \<and>
    map_of (rev kvs) ''detail'' = Some (JStr s) \<and> s \<noteq> []"
  then show "request ns r = Inl (Error s)"
    using request_truthy_detail [of r kvs "JStr s" ns] by simp
next
  assume a: "\<not> ok r \<and>
    (json_body r = None \<or>
     (\<exists>v. json_body r = Some v \<and> v \<noteq> JNull \<and>
          (\<forall>kvs'. v = JObj kvs' \<longrightarrow> map_of (rev kvs') ''detail'' = None)))"
  show "request ns r = Inl (Error (http_message r))"
  proof (rule request_no_truthy_detail)
    show "\<not> ok r" using a by simp
    show "json_body r \<noteq> Some JNull" using a by auto
    fix kvs' d
    assume "json_body r = Some (JObj kvs')" and "map_of (rev kvs') ''detail'' = Some d"
    with a show "\<not> truthy d" by auto
  qed
qed

theorem request_result_witness:
  "\<forall>ns. request ns stats_200 = Inr (JObj [(''total_posts'', JNum 12)]) \<and>
     isl (request ns not_found_404) \<and>
     request ns not_found_404 = Inl (Error ''Stock not found'') \<and>
     request ns gateway_502 = Inl (Error ''HTTP 502: Bad Gateway'') \<and>
     request ns busy_503 = Inl (Error ''HTTP 503: Service Unavailable'')"
proof (intro allI conjI)
  fix ns :: "real \<Rightarrow> string"
  show "request ns stats_200 = Inr (JObj [(''total_posts'', JNum 12)])"
    using request_result [of stats_200 ns] by (simp add: stats_200_def)
  show "isl (request ns not_found_404)"
    using request_result [of not_found_404 ns] by (simp add: not_found_404_def)
  show "request ns not_found_404 = Inl (Error ''Stock not found'')"
    using request_result [of not_found_404 ns "[(''detail'', JStr ''Stock not found'')]"
        "''Stock not found''"]
    by (simp add: not_found_404_def)
  have "http_message gateway_502 = ''HTTP 502: Bad Gateway''"
    by (simp add: http_message_def gateway_502_def show_nat.simps digit_def)
  then show "request ns gateway_502 = Inl (Error ''HTTP 502: Bad Gateway'')"
    using request_result [of gateway_502 ns] by (simp add: gateway_502_def)
  have "http_message busy_503 = ''HTTP 503: Service Unavailable''"
    by (simp add: http_message_def busy_503_def show_nat.simps digit_def)
  then show "request ns busy_503 = Inl (Error ''HTTP 503: Service Unavailable'')"
    using request_result [of busy_503 ns] by (simp add: busy_503_def)
qed

subsection \<open>Momentum score\<close>

lemma unfloored_change_not_finite:
  "unfloored_change 5 0 = Infinite" "unfloored_change 0 0 = NaN"
  by (simp_all add: unfloored_change_def fdiv_def scaled_def)

text \<open>
  C1. For every trend computation with a non-negative baseline, the momentum score
  equals \<^verbatim>\<open>((current_count - baseline) / max(baseline, 1)) * 100\<close> and is a finite
  value, never not-a-number or infinite, also when the baseline is 0.
\<close>

theorem momentum_finite:
  "0 \<le> baseline \<Longrightarrow>
   momentum current_count baseline =
     Finite ((real current_count - baseline) / max baseline 1 * 100)"
  by (simp add: momentum_def fdiv_def scaled_def max_def)

theorem momentum_finite_witness:
  "(0::real) \<le> 0 \<and> momentum 5 0 = Finite 500 \<and> momentum 25 10 = Finite 150"
  using momentum_finite [of 0 5] momentum_finite [of 10 25]
  by simp

subsection \<open>Trending order\<close>

lemma rank_key_less: "rank_key a < rank_key b \<longleftrightarrow> ranks_before a b"
  by (auto simp add: rank_key_def ranks_before_def less_prod_def less_eq_prod_def)

lemma rank_key_ticker: "rank_key a = rank_key b \<Longrightarrow> ticker a = ticker b"
  by (simp add: rank_key_def)

lemma filter_key_single:
  "distinct xs \<Longrightarrow> inj_on f (set xs) \<Longrightarrow> k \<in> set xs \<Longrightarrow> filter (\<lambda>x. f k = f x) xs = [k]"
proof (induction xs)
  case Nil
  then show ?case by simp
next
  case (Cons x xs)
  show ?case
  proof (cases "x = k")
    case True
    have "filter (\<lambda>y. f k = f y) xs = []"
      using Cons.prems True by (auto simp add: filter_empty_conv inj_on_def)
    with True show ?thesis by simp
  next
    case False
    with Cons.prems have in_tail: "k \<in> set xs" and other: "f k \<noteq> f x"
      by (auto simp add: inj_on_def)
    have "filter (\<lambda>x. f k = f x) xs = [k]"
      using Cons.prems in_tail by (intro Cons.IH) (auto simp add: inj_on_def)
    with other show ?thesis by simp
  qed
qed

lemma sort_key_order_independent:
  assumes "distinct xs" and "inj_on f (set xs)" and "mset ys = mset xs"
  shows "sort_key f ys = sort_key f xs"
proof (rule properties_for_sort_key)
  show "mset (sort_key f xs) = mset ys" using assms(3) by simp
  show "sorted (map f (sort_key f xs))" by simp
  fix k assume k: "k \<in> set (sort_key f xs)"
  have dy: "distinct ys" using assms(1,3) by (metis mset_eq_imp_distinct_iff)
  have sy: "set ys = set xs" using assms(3) by (metis mset_eq_setD)
  have "filter (\<lambda>x. f k = f x) (sort_key f xs) = [k]"
    using assms(1,2) k by (intro filter_key_single) simp_all
  moreover have "filter (\<lambda>x. f k = f x) ys = [k]"
    using assms(2) k dy sy by (intro filter_key_single) simp_all
  ultimately show "filter (\<lambda>x. f k = f x) (sort_key f xs) = filter (\<lambda>x. f k = f x) ys"
    by simp
qed

lemma distinct_tickers:
  assumes "distinct (map ticker rows)"
  shows "distinct rows" and "inj_on rank_key (set rows)"
proof -
  show "distinct rows" using assms by (rule distinct_map [THEN iffD1, THEN conjunct1])
  have "inj_on ticker (set rows)" using assms by (simp add: distinct_map)
  then show "inj_on rank_key (set rows)"
    by (auto simp add: inj_on_def dest: rank_key_ticker)
qed

lemma sort_key_strict:
  assumes "distinct xs" and "inj_on f (set xs)"
  shows "sorted_wrt (\<lambda>a b. f a < f b) (sort_key f xs)"
proof -
  have "sorted (map f (sort_key f xs))" by simp
  moreover have "distinct (map f (sort_key f xs))"
    using assms by (simp add: distinct_map)
  ultimately have "sorted_wrt (<) (map f (sort_key f xs))"
    by (simp add: strict_sorted_iff)
  then show ?thesis by (simp add: sorted_wrt_map)
qed

text \<open>
  C8. The trending output is ordered fully deterministically. For every set of rows,
  one per symbol, the output lists the same rows, every row before each row with a
  lower momentum score, among equal momentum scores before each row with a lower
  mention count, and among equal counts before each row whose ticker comes later in
  the alphabet; and the output is the same for every order in which the rows come in,
  so that repeated runs over the same data produce the same order.
\<close>

theorem trending_deterministic:
  assumes "distinct (map ticker rows)" and "mset rows' = mset rows"
  shows "trending rows' = trending rows \<and> mset (trending rows) = mset rows \<and>
         sorted_wrt ranks_before (trending rows)"
proof (intro conjI)
  show "trending rows' = trending rows"
    unfolding trending_def using distinct_tickers [OF assms(1)] assms(2)
    by (intro sort_key_order_independent)
  show "mset (trending rows) = mset rows" by (simp add: trending_def)
  have "sorted_wrt (\<lambda>a b. rank_key a < rank_key b) (trending rows)"
    unfolding trending_def using distinct_tickers [OF assms(1)] by (intro sort_key_strict)
  then show "sorted_wrt ranks_before (trending rows)"
    by (simp add: rank_key_less)
qed

theorem trending_deterministic_witness:
  "trending [trend_row ''GME'' 10 100, trend_row ''TSLA'' 25 100, trend_row ''AMC'' 10 100] =
     trending [trend_row ''AMC'' 10 100, trend_row ''GME'' 10 100, trend_row ''TSLA'' 25 100] \<and>
   trending [trend_row ''AMC'' 10 100, trend_row ''GME'' 10 100, trend_row ''TSLA'' 25 100] =
     [trend_row ''TSLA'' 25 100, trend_row ''AMC'' 10 100, trend_row ''GME'' 10 100]"
proof -
  let ?rows = "[trend_row ''AMC'' 10 100, trend_row ''GME'' 10 100, trend_row ''TSLA'' 25 100]"
  let ?rows' = "[trend_row ''GME'' 10 100, trend_row ''TSLA'' 25 100, trend_row ''AMC'' 10 100]"
  have d: "distinct (map ticker ?rows)" by (simp add: trend_row_def)
  have m: "mset ?rows' = mset ?rows" by (simp add: add.commute)
  have "trending ?rows' = trending ?rows"
    using trending_deterministic [OF d m] by simp
  moreover have "trending ?rows =
      [trend_row ''TSLA'' 25 100, trend_row ''AMC'' 10 100, trend_row ''GME'' 10 100]"
    by (simp add: trending_def trend_row_def rank_key_def)
  ultimately show ?thesis by simp
qed

end
